theory Spec2Isabelle
  imports Main
begin

section \<open>The definition store of the bot: database.py\<close>

text \<open>
  The module database.py is a thin layer over the sqlite3 library: a context manager
  \<^verbatim>\<open>connect\<close> that opens a connection, hands out a cursor, and commits or rolls
  back when the block is left, and five functions that run one statement each in such a
  block. The embedding below makes explicit what Python leaves implicit:
  \<^item> the files on disk, the number of open connection handles and the text printed to
    standard output form the state, passed through every function;
  \<^item> an exception is a value: a function returns \<open>Inl e\<close> when it raises \<open>e\<close> and
    \<open>Inr v\<close> when it returns \<open>v\<close>;
  \<^item> a block of statements ends in one of three ways (\<open>flow\<close>): it runs to its end, it
    executes a \<^verbatim>\<open>return\<close>, or it raises;
  \<^item> a parameter with a default value is an \<open>option\<close>: \<open>None\<close> is the omitted argument.
\<close>

subsection \<open>Python values, exceptions and control flow\<close>

datatype pyval =
    PNone
  | PBool bool
  | PInt int
  | PStr string
  | PTuple "pyval list"
  | PList "pyval list"

text \<open>
  \<open>SqliteError\<close> stands for the class sqlite3.Error and its subclasses, with the message
  of the exception. \<open>UnboundLocalError\<close> carries the name of the local variable that
  was read before it was assigned. \<open>OverflowError\<close> is what the library raises when a
  Python integer does not fit the engine's integers; it is not a sqlite3.Error.
\<close>

datatype exn =
    SqliteError string
  | UnboundLocalError string
  | OverflowError string
  | IndexError string

datatype flow =
    Completed
  | Returned pyval
  | Raised exn

fun is_sqlite_error :: "exn \<Rightarrow> bool" where
  "is_sqlite_error (SqliteError m) = True"
| "is_sqlite_error (UnboundLocalError v) = False"
| "is_sqlite_error (OverflowError m) = False"
| "is_sqlite_error (IndexError m) = False"

fun str_exn :: "exn \<Rightarrow> string" where
  "str_exn (SqliteError m) = m"
| "str_exn (UnboundLocalError v) = v"
| "str_exn (OverflowError m) = m"
| "str_exn (IndexError m) = m"

subsection \<open>The store\<close>

text \<open>
  Modelled from the spec: the schema of the store is not part of the repository (the
  file is provisioned by whoever deploys the bot); the spec gives it as
  \<^verbatim>\<open>defs(server INTEGER, command TEXT, def TEXT)\<close> with no primary key and no
  uniqueness constraint. A row of \<^verbatim>\<open>defs\<close> is therefore a plain triple, and the
  table is a list of rows in the engine's scan order (the order of insertion).
  Texts are byte strings (the UTF-8 form that the engine stores) and are compared
  exactly, as the engine's default collation does.
\<close>

record row =
  server :: int
  command :: string
  def :: string

text \<open>
  A database file: the names of its tables as the schema catalog
  \<^verbatim>\<open>sqlite_master\<close> has them, in its order, and the rows of the table
  \<^verbatim>\<open>defs\<close>. The rows are read and written only when the catalog has that table.
  A value of this type is a well-formed database file that the process may write and
  that no other process holds: a file that is not a database, a read-only file and a
  locked file are not values of it.
\<close>

record database =
  catalog :: "string list"
  defs_rows :: "row list"

text \<open>
  An open connection with its cursor: the path it was opened on, the contents of the
  database as this connection sees them (with its uncommitted changes), whether it has
  a transaction open, and the result set of the last statement of the cursor.
\<close>

record connection =
  conn_path :: string
  pending :: database
  in_transaction :: bool
  results :: "pyval list"

text \<open>
  The state of the process and its disk. \<open>files s p = None\<close> means that the engine
  cannot open \<open>p\<close> (a missing directory, no permission); a path in an existing directory
  with no file yet is an empty database, which is what the engine makes of it.
\<close>

record state =
  files :: "string \<rightharpoonup> database"
  open_handles :: nat
  stdout :: "string list"

definition print :: "string \<Rightarrow> state \<Rightarrow> state" where
  "print msg s = s\<lparr>stdout := stdout s @ [msg]\<rparr>"

subsection \<open>The engine: sqlite3\<close>

text \<open>
  The library is not part of the repository; the definitions of this subsection give
  the behaviour of its calls that the module relies on, for one process that has the
  files to itself:
  \<^item> \<^verbatim>\<open>sqlite3.connect\<close> raises when the file cannot be opened and gives a new
    handle otherwise;
  \<^item> the engine finds a table by its name without regard to the case of ASCII letters;
  \<^item> a statement is prepared first, which raises a sqlite3.Error when its table does
    not exist; its parameters are bound next, which raises OverflowError for an integer
    outside the signed 64-bit range; only then does it run;
  \<^item> an insert or a delete opens a transaction: it changes what the connection sees,
    and the file only at \<^verbatim>\<open>commit\<close>; a statement that changes the schema is not
    given a transaction by the library and, when none is open, changes the file at once;
  \<^item> \<^verbatim>\<open>commit\<close>, \<^verbatim>\<open>rollback\<close> and \<^verbatim>\<open>close\<close> do not raise.
\<close>

definition ascii_lower :: "char \<Rightarrow> char" where
  "ascii_lower ch =
     (case map_of (zip ''ABCDEFGHIJKLMNOPQRSTUVWXYZ'' ''abcdefghijklmnopqrstuvwxyz'') ch of
        None \<Rightarrow> ch
      | Some l \<Rightarrow> l)"

definition has_table :: "string \<Rightarrow> string list \<Rightarrow> bool" where
  "has_table name names = (map ascii_lower name \<in> set (map (map ascii_lower) names))"

definition has_defs :: "database \<Rightarrow> bool" where
  "has_defs d = has_table ''defs'' (catalog d)"

definition sqlite_int :: "int \<Rightarrow> bool" where
  "sqlite_int n = (- 9223372036854775808 \<le> n \<and> n \<le> 9223372036854775807)"

definition sqlite3_connect :: "string \<Rightarrow> state \<Rightarrow> exn + (connection \<times> state)" where
  "sqlite3_connect path s =
     (case files s path of
        None \<Rightarrow> Inl (SqliteError ''unable to open database file'')
      | Some d \<Rightarrow>
          Inr (\<lparr>conn_path = path, pending = d, in_transaction = False, results = []\<rparr>,
               s\<lparr>open_handles := Suc (open_handles s)\<rparr>))"

definition db_commit :: "connection \<Rightarrow> state \<Rightarrow> state" where
  "db_commit db s = s\<lparr>files := (files s)(conn_path db \<mapsto> pending db)\<rparr>"

definition db_rollback :: "connection \<Rightarrow> state \<Rightarrow> connection" where
  "db_rollback db s =
     (case files s (conn_path db) of
        None \<Rightarrow> db\<lparr>in_transaction := False\<rparr>
      | Some d \<Rightarrow> db\<lparr>pending := d, in_transaction := False\<rparr>)"

text \<open>Closing a connection drops its uncommitted changes with the handle.\<close>

definition db_close :: "connection \<Rightarrow> state \<Rightarrow> state" where
  "db_close db s = s\<lparr>open_handles := open_handles s - 1\<rparr>"

text \<open>
  The four statements the module sends with fixed text, with their bound parameters.
  Each is atomic in the engine: it either takes effect on the connection or raises and
  changes nothing.
\<close>

datatype statement =
    SelectTables
  | InsertDef int string string
  | SelectDef int string
  | DeleteDef int string

definition matches :: "int \<Rightarrow> string \<Rightarrow> row \<Rightarrow> bool" where
  "matches sv cmd r = (server r = sv \<and> command r = cmd)"

definition no_such_table :: exn where
  "no_such_table = SqliteError ''no such table: defs''"

definition int_too_large :: exn where
  "int_too_large = OverflowError ''Python int too large to convert to SQLite INTEGER''"

fun execute :: "statement \<Rightarrow> connection \<Rightarrow> exn + connection" where
  "execute SelectTables c =
     Inr (c\<lparr>results := map (\<lambda>n. PTuple [PStr n]) (catalog (pending c))\<rparr>)"
| "execute (InsertDef sv cmd d) c =
     (if has_defs (pending c)
      then (if sqlite_int sv
            then Inr (c\<lparr>pending := (pending c)\<lparr>defs_rows :=
                           defs_rows (pending c) @ [\<lparr>server = sv, command = cmd, def = d\<rparr>]\<rparr>,
                        in_transaction := True,
                        results := []\<rparr>)
            else Inl int_too_large)
      else Inl no_such_table)"
| "execute (SelectDef sv cmd) c =
     (if has_defs (pending c)
      then (if sqlite_int sv
            then Inr (c\<lparr>results :=
                           map (\<lambda>r. PTuple [PStr (def r)])
                             (filter (matches sv cmd) (defs_rows (pending c)))\<rparr>)
            else Inl int_too_large)
      else Inl no_such_table)"
| "execute (DeleteDef sv cmd) c =
     (if has_defs (pending c)
      then (if sqlite_int sv
            then Inr (c\<lparr>pending := (pending c)\<lparr>defs_rows :=
                           filter (\<lambda>r. \<not> matches sv cmd r) (defs_rows (pending c))\<rparr>,
                        in_transaction := True,
                        results := []\<rparr>)
            else Inl int_too_large)
      else Inl no_such_table)"

text \<open>
  \<^verbatim>\<open>CREATE TABLE\<close>, which the module never sends itself but \<open>sql_execute\<close> may
  be given: the new table is in the file at once unless a transaction is open.
\<close>

definition create_table :: "string \<Rightarrow> connection \<Rightarrow> state \<Rightarrow> (exn + connection) \<times> state" where
  "create_table name c s =
     (if has_table name (catalog (pending c))
      then (Inl (SqliteError (''table '' @ name @ '' already exists'')), s)
      else
        (let d = (pending c)\<lparr>catalog := catalog (pending c) @ [name],
                   defs_rows := (if map ascii_lower name = ''defs'' then []
                                 else defs_rows (pending c))\<rparr>
         in if in_transaction c
            then (Inr (c\<lparr>pending := d, results := []\<rparr>), s)
            else (Inr (c\<lparr>pending := d, results := []\<rparr>),
                  s\<lparr>files := (files s)(conn_path c \<mapsto> d)\<rparr>)))"

definition fetchall :: "connection \<Rightarrow> pyval \<times> connection" where
  "fetchall c = (PList (results c), c\<lparr>results := []\<rparr>)"

definition fetchone :: "connection \<Rightarrow> pyval \<times> connection" where
  "fetchone c =
     (case results c of
        [] \<Rightarrow> (PNone, c)
      | r # rest \<Rightarrow> (r, c\<lparr>results := rest\<rparr>))"

text \<open>The subscript \<^verbatim>\<open>v[0]\<close> of Python.\<close>

fun subscript0 :: "pyval \<Rightarrow> exn + pyval" where
  "subscript0 (PTuple (v # vs)) = Inr v"
| "subscript0 (PList (v # vs)) = Inr v"
| "subscript0 v = Inl (IndexError ''index out of range'')"

subsection \<open>connect\<close>

text \<open>
  \<^verbatim>\<open>connect\<close> is a generator under \<^verbatim>\<open>contextmanager\<close>. Entering the
  \<^verbatim>\<open>with\<close> statement runs it up to \<^verbatim>\<open>yield cursor\<close>. When
  \<^verbatim>\<open>sqlite3.connect\<close> raises, the \<^verbatim>\<open>except\<close> clause prints the error and
  the \<^verbatim>\<open>finally\<close> clause then reads \<^verbatim>\<open>db\<close>, which was never assigned.
\<close>

definition connect_enter :: "string \<Rightarrow> state \<Rightarrow> (exn + connection) \<times> state" where
  "connect_enter path s =
     (case sqlite3_connect path s of
        Inl e \<Rightarrow>
          (if is_sqlite_error e
           then (Inl (UnboundLocalError ''db''), print (str_exn e) s)
           else (Inl (UnboundLocalError ''db''), s))
      | Inr (db, s') \<Rightarrow> (Inr db, s'))"

text \<open>
  Leaving the block resumes the generator at the \<^verbatim>\<open>yield\<close>: with the exception
  of the block thrown into it when the block raised, plainly otherwise (also when the
  block executed a \<^verbatim>\<open>return\<close>). An exception that the generator catches is
  suppressed by the context manager, and control continues after the
  \<^verbatim>\<open>with\<close> statement; any other exception goes on to the caller once the
  \<^verbatim>\<open>finally\<close> clause has closed the connection.
\<close>

definition connect_exit :: "bool \<Rightarrow> flow \<Rightarrow> connection \<Rightarrow> state \<Rightarrow> flow \<times> state" where
  "connect_exit commit fl db s =
     (case fl of
        Raised e \<Rightarrow>
          (if is_sqlite_error e
           then (Completed, db_close db (print (str_exn e) s))
           else (Raised e, db_close db s))
      | Returned v \<Rightarrow>
          (if commit
           then (Returned v, db_close db (db_commit db s))
           else (Returned v, db_close (db_rollback db s) s))
      | Completed \<Rightarrow>
          (if commit
           then (Completed, db_close db (db_commit db s))
           else (Completed, db_close (db_rollback db s) s)))"

text \<open>The default value of the parameter \<^verbatim>\<open>commit\<close>.\<close>

definition commit_arg :: "bool option \<Rightarrow> bool" where
  "commit_arg commit = (case commit of None \<Rightarrow> False | Some b \<Rightarrow> b)"

text \<open>
  \<^verbatim>\<open>with connect(path, commit=commit) as c: body\<close>. The body works on the cursor
  and, through the engine, on the state.
\<close>

definition connect ::
  "string \<Rightarrow> bool option \<Rightarrow> (connection \<Rightarrow> state \<Rightarrow> flow \<times> connection \<times> state) \<Rightarrow>
     state \<Rightarrow> flow \<times> state" where
  "connect path commit body s =
     (case connect_enter path s of
        (Inl e, s') \<Rightarrow> (Raised e, s')
      | (Inr c, s') \<Rightarrow>
          (case body c s' of
             (fl, c', s'') \<Rightarrow> connect_exit (commit_arg commit) fl c' s''))"

text \<open>A body whose statements reach the state only through the cursor's connection.\<close>

definition on_cursor ::
  "(connection \<Rightarrow> flow \<times> connection) \<Rightarrow> connection \<Rightarrow> state \<Rightarrow> flow \<times> connection \<times> state" where
  "on_cursor b c s = (case b c of (fl, c') \<Rightarrow> (fl, c', s))"

text \<open>
  What a function gives its caller, from the way its body ended after the
  \<^verbatim>\<open>with\<close> statement: \<open>after\<close> is the value of the statements that follow the
  block (\<open>PNone\<close> when the function ends there).
\<close>

definition finish :: "pyval \<Rightarrow> flow \<times> state \<Rightarrow> (exn + pyval) \<times> state" where
  "finish after r =
     (case r of
        (Completed, s) \<Rightarrow> (Inr after, s)
      | (Returned v, s) \<Rightarrow> (Inr v, s)
      | (Raised e, s) \<Rightarrow> (Inl e, s))"

subsection \<open>The operations\<close>

text \<open>
  The engine's reading of a raw SQL text is not part of the module: \<open>sql_execute\<close>
  takes it as the parameter \<open>run\<close>, which may change the connection and, for a
  statement that the engine runs outside a transaction, the file.
\<close>

definition sql_execute ::
  "(string \<Rightarrow> connection \<Rightarrow> state \<Rightarrow> (exn + connection) \<times> state) \<Rightarrow> string \<Rightarrow> string \<Rightarrow>
     bool option \<Rightarrow> state \<Rightarrow> (exn + pyval) \<times> state" where
  "sql_execute run path sql commit s =
     finish PNone
       (connect path commit
          (\<lambda>c s'. case run sql c s' of
                     (Inl e, s'') \<Rightarrow> (Raised e, c, s'')
                   | (Inr c', s'') \<Rightarrow>
                       (case fetchall c' of (rows, c'') \<Rightarrow> (Returned rows, c'', s'')))
          s)"

definition list_tables :: "string \<Rightarrow> bool option \<Rightarrow> state \<Rightarrow> (exn + pyval) \<times> state" where
  "list_tables path commit s =
     finish PNone
       (connect path commit
          (on_cursor
             (\<lambda>c. case execute SelectTables c of
                     Inl e \<Rightarrow> (Raised e, c)
                   | Inr c' \<Rightarrow> (case fetchall c' of (rows, c'') \<Rightarrow> (Returned rows, c''))))
          s)"

definition ins_def ::
  "string \<Rightarrow> int \<Rightarrow> string \<Rightarrow> string \<Rightarrow> bool option \<Rightarrow> state \<Rightarrow> (exn + pyval) \<times> state" where
  "ins_def path sv cmd definition commit s =
     finish (PBool False)
       (connect path commit
          (on_cursor
             (\<lambda>c. case execute (InsertDef sv cmd definition) c of
                     Inl e \<Rightarrow> (Raised e, c)
                   | Inr c' \<Rightarrow> (Returned (PBool True), c')))
          s)"

definition get_def :: "string \<Rightarrow> int \<Rightarrow> string \<Rightarrow> state \<Rightarrow> (exn + pyval) \<times> state" where
  "get_def path sv cmd s =
     finish PNone
       (connect path None
          (on_cursor
             (\<lambda>c. case execute (SelectDef sv cmd) c of
                     Inl e \<Rightarrow> (Raised e, c)
                   | Inr c' \<Rightarrow>
                       (case fetchone c' of
                          (definition, c'') \<Rightarrow>
                            (if definition \<noteq> PNone
                             then (case subscript0 definition of
                                     Inl e \<Rightarrow> (Raised e, c'')
                                   | Inr v \<Rightarrow> (Returned v, c''))
                             else (Returned PNone, c'')))))
          s)"

definition del_def ::
  "string \<Rightarrow> int \<Rightarrow> string \<Rightarrow> bool option \<Rightarrow> state \<Rightarrow> (exn + pyval) \<times> state" where
  "del_def path sv cmd commit s =
     finish PNone
       (connect path commit
          (on_cursor
             (\<lambda>c. case execute (DeleteDef sv cmd) c of
                     Inl e \<Rightarrow> (Raised e, c)
                   | Inr c' \<Rightarrow> (Completed, c')))
          s)"

subsection \<open>What the claims speak of\<close>


text \<open>
  The files with a mutation fully applied: one more row at the end of \<^verbatim>\<open>defs\<close>
  of the database at \<open>path\<close>, and that table without the rows of a key.
\<close>

definition with_row_inserted ::
  "string \<Rightarrow> row \<Rightarrow> (string \<rightharpoonup> database) \<Rightarrow> (string \<rightharpoonup> database)" where
  "with_row_inserted path r fs =
     (case fs path of
        None \<Rightarrow> fs
      | Some d \<Rightarrow> fs(path \<mapsto> d\<lparr>defs_rows := defs_rows d @ [r]\<rparr>))"

definition with_rows_deleted ::
  "string \<Rightarrow> int \<Rightarrow> string \<Rightarrow> (string \<rightharpoonup> database) \<Rightarrow> (string \<rightharpoonup> database)" where
  "with_rows_deleted path sv cmd fs =
     (case fs path of
        None \<Rightarrow> fs
      | Some d \<Rightarrow>
          fs(path \<mapsto> d\<lparr>defs_rows := filter (\<lambda>r. \<not> matches sv cmd r) (defs_rows d)\<rparr>))"

text \<open>The connection that \<^verbatim>\<open>sqlite3.connect\<close> gives on a database.\<close>

definition opened :: "string \<Rightarrow> database \<Rightarrow> connection" where
  "opened path d = \<lparr>conn_path = path, pending = d, in_transaction = False, results = []\<rparr>"

definition is_raised :: "flow \<Rightarrow> bool" where
  "is_raised fl = (case fl of Raised e \<Rightarrow> True | Returned v \<Rightarrow> False | Completed \<Rightarrow> False)"

subsection \<open>Example states\<close>

text \<open>
  A process with no open handle and nothing printed, whose disk holds one database at
  \<^verbatim>\<open>bot.db\<close> and nothing that the engine could open elsewhere.
\<close>

definition state_with :: "database \<Rightarrow> state" where
  "state_with d = \<lparr>files = [''bot.db'' \<mapsto> d], open_handles = 0, stdout = []\<rparr>"

text \<open>
  The freshly provisioned store, the same with the table's name in capitals, an empty
  database file, and a store with rows.
\<close>

definition fresh_db :: database where
  "fresh_db = \<lparr>catalog = [''defs''], defs_rows = []\<rparr>"


definition empty_db :: database where
  "empty_db = \<lparr>catalog = [], defs_rows = []\<rparr>"

definition example_db :: database where
  "example_db =
     \<lparr>catalog = [''defs''],
      defs_rows =
        [\<lparr>server = 42, command = ''hello'', def = ''world''\<rparr>,
         \<lparr>server = 42, command = ''hello'', def = ''again''\<rparr>,
         \<lparr>server = 7, command = ''hello'', def = ''other''\<rparr>]\<rparr>"

text \<open>
  A block that changes what the connection sees and then raises an engine error, and a
  reading of raw SQL that knows one statement.
\<close>

definition failing_block :: "connection \<Rightarrow> state \<Rightarrow> flow \<times> connection \<times> state" where
  "failing_block c s = (Raised (SqliteError ''disk I/O error''), c\<lparr>pending := empty_db\<rparr>, s)"

definition example_engine :: "string \<Rightarrow> connection \<Rightarrow> state \<Rightarrow> (exn + connection) \<times> state" where
  "example_engine sql c s =
     (if sql = ''CREATE TABLE notes (body TEXT);''
      then create_table ''notes'' c s
      else (Inl (SqliteError ''syntax error''), s))"

section \<open>Properties\<close>

subsection \<open>What each operation computes\<close>


lemma connect_opens:
  "files s path = Some d \<Longrightarrow>
   connect path commit body s =
     (case body (opened path d) (s\<lparr>open_handles := Suc (open_handles s)\<rparr>) of
        (fl, c', s') \<Rightarrow> connect_exit (commit_arg commit) fl c' s')"
  by (simp add: connect_def connect_enter_def sqlite3_connect_def opened_def)

lemma connect_fails:
  "files s path = None \<Longrightarrow>
   connect path commit body s =
     (Raised (UnboundLocalError ''db''), print ''unable to open database file'' s)"
  by (simp add: connect_def connect_enter_def sqlite3_connect_def)

lemmas exit_defs =
  connect_exit_def finish_def db_close_def db_commit_def db_rollback_def no_such_table_def
  int_too_large_def print_def on_cursor_def opened_def

lemma ins_def_opens:
  "files s path = Some d \<Longrightarrow>
   ins_def path sv cmd dfn commit s =
     (if has_defs d
      then (if sqlite_int sv
            then (Inr (PBool True),
                  if commit_arg commit
                  then s\<lparr>files := (files s)(path \<mapsto>
                         d\<lparr>defs_rows := defs_rows d @ [\<lparr>server = sv, command = cmd, def = dfn\<rparr>]\<rparr>)\<rparr>
                  else s)
            else (Inl int_too_large, s))
      else (Inr (PBool False), print ''no such table: defs'' s))"
  by (simp add: ins_def_def connect_opens exit_defs)

lemma ins_def_fails:
  "files s path = None \<Longrightarrow>
   ins_def path sv cmd dfn commit s =
     (Inl (UnboundLocalError ''db''), print ''unable to open database file'' s)"
  by (simp add: ins_def_def connect_fails finish_def)

lemma del_def_opens:
  "files s path = Some d \<Longrightarrow>
   del_def path sv cmd commit s =
     (if has_defs d
      then (if sqlite_int sv
            then (Inr PNone,
                  if commit_arg commit
                  then s\<lparr>files := (files s)(path \<mapsto>
                         d\<lparr>defs_rows := filter (\<lambda>r. \<not> matches sv cmd r) (defs_rows d)\<rparr>)\<rparr>
                  else s)
            else (Inl int_too_large, s))
      else (Inr PNone, print ''no such table: defs'' s))"
  by (simp add: del_def_def connect_opens exit_defs)

lemma del_def_fails:
  "files s path = None \<Longrightarrow>
   del_def path sv cmd commit s =
     (Inl (UnboundLocalError ''db''), print ''unable to open database file'' s)"
  by (simp add: del_def_def connect_fails finish_def)


lemma get_def_fails:
  "files s path = None \<Longrightarrow>
   get_def path sv cmd s =
     (Inl (UnboundLocalError ''db''), print ''unable to open database file'' s)"
  by (simp add: get_def_def connect_fails finish_def)

lemma list_tables_opens:
  "files s path = Some d \<Longrightarrow>
   list_tables path commit s =
     (Inr (PList (map (\<lambda>n. PTuple [PStr n]) (catalog d))), s)"
  by (simp add: list_tables_def connect_opens exit_defs fetchall_def map_upd_triv)

lemma list_tables_fails:
  "files s path = None \<Longrightarrow>
   list_tables path commit s =
     (Inl (UnboundLocalError ''db''), print ''unable to open database file'' s)"
  by (simp add: list_tables_def connect_fails finish_def)



lemma list_tables_files: "files (snd (list_tables path commit s)) = files s"
  by (cases "files s path") (simp_all add: list_tables_opens list_tables_fails print_def)

lemma ins_def_rollback_files:
  "\<not> commit_arg commit \<Longrightarrow> files (snd (ins_def path sv cmd dfn commit s)) = files s"
  by (cases "files s path") (simp_all add: ins_def_opens ins_def_fails print_def)

lemma del_def_rollback_files:
  "\<not> commit_arg commit \<Longrightarrow> files (snd (del_def path sv cmd commit s)) = files s"
  by (cases "files s path") (simp_all add: del_def_opens del_def_fails print_def)





text \<open>
  Once the connection is open, every way of leaving the block releases the handle, and
  an engine error raised in the block is printed and goes no further.
\<close>

lemma connect_exit_files:
  "files (snd (connect_exit commit fl c s)) =
     (if commit \<and> \<not> is_raised fl then (files s)(conn_path c \<mapsto> pending c) else files s)"
  by (simp add: exit_defs is_raised_def split: flow.splits)

lemma connect_exit_handles:
  "open_handles (snd (connect_exit commit fl c s)) = open_handles s - 1"
  by (simp add: exit_defs split: flow.splits)

lemma connect_suppresses_engine_error:
  "files s path = Some d \<Longrightarrow>
   body (opened path d) (s\<lparr>open_handles := Suc (open_handles s)\<rparr>)
     = (Raised (SqliteError m), c', s\<lparr>open_handles := Suc (open_handles s)\<rparr>) \<Longrightarrow>
   connect path commit body s = (Completed, print m s)"
  by (simp add: connect_opens exit_defs)



lemma example_files:
  "files (state_with d) ''bot.db'' = Some d"
  by (simp add: state_with_def)

lemma finish_state: "snd (finish after r) = snd r"
  by (cases r) (simp add: finish_def split: flow.splits)

lemma connect_files:
  "files s path = Some d \<Longrightarrow>
   files (snd (connect path commit body s)) =
     (case body (opened path d) (s\<lparr>open_handles := Suc (open_handles s)\<rparr>) of
        (fl, c', s') \<Rightarrow>
          (if commit_arg commit \<and> \<not> is_raised fl
           then (files s')(conn_path c' \<mapsto> pending c') else files s'))"
  by (simp add: connect_opens connect_exit_files split: prod.splits)

lemma sql_execute_opens:
  "files s path = Some d \<Longrightarrow>
   files (snd (sql_execute run path sql commit s)) =
     (case run sql (opened path d) (s\<lparr>open_handles := Suc (open_handles s)\<rparr>) of
        (Inl e, s') \<Rightarrow> files s'
      | (Inr c', s') \<Rightarrow>
          (if commit_arg commit then (files s')(conn_path c' \<mapsto> pending c') else files s'))"
proof -
  assume f: "files s path = Some d"
  obtain r s' where r: "run sql (opened path d) (s\<lparr>open_handles := Suc (open_handles s)\<rparr>) = (r, s')"
    by (cases "run sql (opened path d) (s\<lparr>open_handles := Suc (open_handles s)\<rparr>)")
  show ?thesis
    by (cases r) (simp_all add: sql_execute_def finish_state connect_files [OF f] r
        fetchall_def is_raised_def)
qed

lemma sql_execute_fails:
  "files s path = None \<Longrightarrow>
   sql_execute run path sql commit s =
     (Inl (UnboundLocalError ''db''), print ''unable to open database file'' s)"
  by (simp add: sql_execute_def connect_fails finish_def)

section \<open>The claims\<close>




text \<open>
  Claim C2 says that no exception ever leaves \<open>connect\<close>. On a path that the engine
  cannot open, \<^verbatim>\<open>sqlite3.connect\<close> raises before \<^verbatim>\<open>db\<close> is assigned; the
  error is caught and printed, and the \<^verbatim>\<open>finally\<close> clause then raises
  UnboundLocalError at \<^verbatim>\<open>db.close()\<close>, which reaches the caller of every
  operation. With no file that can be opened at \<^verbatim>\<open>/missing/bot.db\<close>, both
  \<open>connect\<close> and \<open>get_def\<close> raise, after the engine's message was printed.
\<close>

theorem connect_open_failure_raises:
  "connect ''/missing/bot.db'' commit body \<lparr>files = Map.empty, open_handles = 0, stdout = []\<rparr>
     = (Raised (UnboundLocalError ''db''),
        \<lparr>files = Map.empty, open_handles = 0, stdout = [''unable to open database file'']\<rparr>)
   \<and> get_def ''/missing/bot.db'' 42 ''hello'' \<lparr>files = Map.empty, open_handles = 0, stdout = []\<rparr>
     = (Inl (UnboundLocalError ''db''),
        \<lparr>files = Map.empty, open_handles = 0, stdout = [''unable to open database file'']\<rparr>)"
  by (simp add: connect_fails get_def_fails print_def)
















text \<open>
  Claim C8, amended. On a store whose catalog holds the table \<^verbatim>\<open>defs\<close> and
  nothing else, \<open>list_tables\<close> returns a sequence of exactly one row, the tuple of one
  column that holds the name \<^verbatim>\<open>defs\<close>; the state is left as it was.
\<close>

theorem list_tables_fresh:
  assumes "files s path = Some d"
    and "catalog d = [''defs'']"
  shows "list_tables path commit s = (Inr (PList [PTuple [PStr ''defs'']]), s)"
  using assms by (simp add: list_tables_opens)

theorem list_tables_fresh_witness:
  "files (state_with fresh_db) ''bot.db'' = Some fresh_db
   \<and> catalog fresh_db = [''defs'']
   \<and> list_tables ''bot.db'' None (state_with fresh_db)
       = (Inr (PList [PTuple [PStr ''defs'']]), state_with fresh_db)"
  using list_tables_fresh [of "state_with fresh_db" "''bot.db''" fresh_db None]
  by (simp add: state_with_def fresh_db_def)

text \<open>
  Claim C8 as first stated (a sequence containing exactly the name) fails: the result
  is \<^verbatim>\<open>[('defs',)]\<close>, not \<^verbatim>\<open>['defs']\<close>.
\<close>

theorem list_tables_fresh_counterexample:
  "fst (list_tables ''bot.db'' None (state_with fresh_db)) = Inr (PList [PTuple [PStr ''defs'']])
   \<and> fst (list_tables ''bot.db'' None (state_with fresh_db)) \<noteq> Inr (PList [PStr ''defs''])"
  by (simp add: list_tables_opens [OF example_files]) (simp add: fresh_db_def)

text \<open>
  Claim C9. For every block, \<open>connect\<close> writes to the file at most once, when the block
  is left: the whole of what the connection then sees if the block did not raise and
  the commit flag is set, and nothing otherwise, also when the block raises after it
  changed what the connection sees; the handle is released in every case. So after
  \<open>ins_def\<close> the files are those with the row inserted if the flag is set and
  \<^verbatim>\<open>True\<close> is returned, and those before the call otherwise; after \<open>del_def\<close>
  they are those before the call or those without the rows of the key; and no handle
  opened by either is left open.
\<close>

theorem mutation_all_or_nothing:
  "files (snd (connect path commit body s)) =
     (case files s path of
        None \<Rightarrow> files s
      | Some d \<Rightarrow>
          (case body (opened path d) (s\<lparr>open_handles := Suc (open_handles s)\<rparr>) of
             (fl, c', s') \<Rightarrow>
               (if commit_arg commit \<and> \<not> is_raised fl
                then (files s')(conn_path c' \<mapsto> pending c') else files s')))
   \<and> open_handles (snd (connect path commit body s)) =
     (case files s path of
        None \<Rightarrow> open_handles s
      | Some d \<Rightarrow>
          (case body (opened path d) (s\<lparr>open_handles := Suc (open_handles s)\<rparr>) of
             (fl, c', s') \<Rightarrow> open_handles s' - 1))
   \<and> files (snd (ins_def path sv cmd dfn commit s)) =
       (if commit_arg commit \<and> fst (ins_def path sv cmd dfn commit s) = Inr (PBool True)
        then with_row_inserted path \<lparr>server = sv, command = cmd, def = dfn\<rparr> (files s)
        else files s)
   \<and> open_handles (snd (ins_def path sv cmd dfn commit s)) = open_handles s
   \<and> (files (snd (del_def path sv cmd commit s)) = files s
      \<or> files (snd (del_def path sv cmd commit s)) = with_rows_deleted path sv cmd (files s))
   \<and> open_handles (snd (del_def path sv cmd commit s)) = open_handles s"
proof (cases "files s path")
  case None
  then show ?thesis
    by (simp add: connect_fails ins_def_fails del_def_fails print_def)
next
  case (Some d)
  have "files (snd (connect path commit body s)) =
      (case body (opened path d) (s\<lparr>open_handles := Suc (open_handles s)\<rparr>) of
         (fl, c', s') \<Rightarrow>
           (if commit_arg commit \<and> \<not> is_raised fl
            then (files s')(conn_path c' \<mapsto> pending c') else files s'))"
    by (simp add: connect_opens [OF Some] connect_exit_files split: prod.splits)
  moreover have "open_handles (snd (connect path commit body s)) =
      (case body (opened path d) (s\<lparr>open_handles := Suc (open_handles s)\<rparr>) of
         (fl, c', s') \<Rightarrow> open_handles s' - 1)"
    by (simp add: connect_opens [OF Some] connect_exit_handles split: prod.splits)
  moreover have "files (snd (ins_def path sv cmd dfn commit s)) =
       (if commit_arg commit \<and> fst (ins_def path sv cmd dfn commit s) = Inr (PBool True)
        then with_row_inserted path \<lparr>server = sv, command = cmd, def = dfn\<rparr> (files s)
        else files s)"
    by (simp add: ins_def_opens [OF Some] with_row_inserted_def Some print_def)
  moreover have "open_handles (snd (ins_def path sv cmd dfn commit s)) = open_handles s"
    by (simp add: ins_def_opens [OF Some] print_def)
  moreover have "files (snd (del_def path sv cmd commit s)) = files s
      \<or> files (snd (del_def path sv cmd commit s)) = with_rows_deleted path sv cmd (files s)"
    by (simp add: del_def_opens [OF Some] with_rows_deleted_def Some print_def)
  moreover have "open_handles (snd (del_def path sv cmd commit s)) = open_handles s"
    by (simp add: del_def_opens [OF Some] print_def)
  ultimately show ?thesis
    by (simp add: Some)
qed

theorem mutation_all_or_nothing_witness:
  "files (snd (connect ''bot.db'' (Some True) failing_block (state_with example_db)))
     = files (state_with example_db)
   \<and> open_handles (snd (connect ''bot.db'' (Some True) failing_block (state_with example_db)))
     = 0"
  using mutation_all_or_nothing
    [of "''bot.db''" "Some True" failing_block "state_with example_db"]
  by (simp add: example_files failing_block_def is_raised_def) (simp add: state_with_def)

text \<open>
  Claim C10, amended. In \<open>connect\<close>, \<open>sql_execute\<close>, \<open>list_tables\<close>, \<open>ins_def\<close> and
  \<open>del_def\<close> an omitted \<^verbatim>\<open>commit\<close> is \<^verbatim>\<open>commit=False\<close>: \<open>connect\<close> then
  writes nothing to the file when the block is left, and \<open>list_tables\<close>, \<open>ins_def\<close>
  and \<open>del_def\<close> leave the files unchanged. What \<open>sql_execute\<close> leaves in the file
  is what the engine wrote while the statement ran.
\<close>

theorem commit_defaults_to_False:
  "connect path None body s = connect path (Some False) body s
   \<and> sql_execute run path sql None s = sql_execute run path sql (Some False) s
   \<and> list_tables path None s = list_tables path (Some False) s
   \<and> ins_def path sv cmd dfn None s = ins_def path sv cmd dfn (Some False) s
   \<and> del_def path sv cmd None s = del_def path sv cmd (Some False) s
   \<and> files (snd (connect path None body s)) =
       (case files s path of
          None \<Rightarrow> files s
        | Some d \<Rightarrow>
            files (snd (snd (body (opened path d) (s\<lparr>open_handles := Suc (open_handles s)\<rparr>)))))
   \<and> files (snd (sql_execute run path sql None s)) =
       (case files s path of
          None \<Rightarrow> files s
        | Some d \<Rightarrow>
            files (snd (run sql (opened path d) (s\<lparr>open_handles := Suc (open_handles s)\<rparr>))))
   \<and> files (snd (list_tables path None s)) = files s
   \<and> files (snd (ins_def path sv cmd dfn None s)) = files s
   \<and> files (snd (del_def path sv cmd None s)) = files s"
proof -
  have e: "commit_arg None = commit_arg (Some False)"
    by (simp add: commit_arg_def)
  have c: "connect path None b s = connect path (Some False) b s" for b
    unfolding connect_def e by (rule refl)
  have "sql_execute run path sql None s = sql_execute run path sql (Some False) s"
    by (simp add: sql_execute_def c)
  moreover have "list_tables path None s = list_tables path (Some False) s"
    by (simp add: list_tables_def c)
  moreover have "ins_def path sv cmd dfn None s = ins_def path sv cmd dfn (Some False) s"
    by (simp add: ins_def_def c)
  moreover have "del_def path sv cmd None s = del_def path sv cmd (Some False) s"
    by (simp add: del_def_def c)
  moreover have "files (snd (connect path None body s)) =
       (case files s path of
          None \<Rightarrow> files s
        | Some d \<Rightarrow>
            files (snd (snd (body (opened path d) (s\<lparr>open_handles := Suc (open_handles s)\<rparr>)))))"
    by (cases "files s path")
      (simp_all add: connect_fails connect_files commit_arg_def print_def split: prod.splits)
  moreover have "files (snd (sql_execute run path sql None s)) =
       (case files s path of
          None \<Rightarrow> files s
        | Some d \<Rightarrow>
            files (snd (run sql (opened path d) (s\<lparr>open_handles := Suc (open_handles s)\<rparr>))))"
    by (cases "files s path")
      (simp_all add: sql_execute_fails sql_execute_opens commit_arg_def print_def
        split: prod.splits sum.splits)
  moreover have "files (snd (list_tables path None s)) = files s"
    by (rule list_tables_files)
  moreover have "files (snd (ins_def path sv cmd dfn None s)) = files s"
    by (simp add: ins_def_rollback_files commit_arg_def)
  moreover have "files (snd (del_def path sv cmd None s)) = files s"
    by (simp add: del_def_rollback_files commit_arg_def)
  ultimately show ?thesis
    using c by blast
qed

theorem commit_defaults_to_False_witness:
  "files (snd (ins_def ''bot.db'' 42 ''hello'' ''world'' None (state_with fresh_db)))
     = files (state_with fresh_db)
   \<and> files (snd (del_def ''bot.db'' 42 ''hello'' None (state_with example_db)))
     = files (state_with example_db)"
  using commit_defaults_to_False
    [of "''bot.db''" _ "state_with fresh_db" _ _ 42 "''hello''" "''world''"]
    commit_defaults_to_False
    [of "''bot.db''" _ "state_with example_db" _ _ 42 "''hello''"]
  by blast

text \<open>
  Claim C10 as first stated (rollback semantics for any caller who omits
  \<^verbatim>\<open>commit\<close>) fails for \<open>sql_execute\<close> with a statement that the engine runs
  outside a transaction: the table made by \<^verbatim>\<open>CREATE TABLE\<close> is in the file
  after the call.
\<close>

theorem sql_execute_persists_counterexample:
  "files (snd (sql_execute example_engine ''bot.db'' ''CREATE TABLE notes (body TEXT);'' None
      (state_with fresh_db))) ''bot.db''
     = Some \<lparr>catalog = [''defs'', ''notes''], defs_rows = []\<rparr>
   \<and> files (snd (sql_execute example_engine ''bot.db'' ''CREATE TABLE notes (body TEXT);'' None
      (state_with fresh_db)))
     \<noteq> files (state_with fresh_db)"
proof -
  have a: "files (snd (sql_execute example_engine ''bot.db'' ''CREATE TABLE notes (body TEXT);''
      None (state_with fresh_db))) ''bot.db''
     = Some \<lparr>catalog = [''defs'', ''notes''], defs_rows = []\<rparr>"
    by (simp add: sql_execute_opens [OF example_files] example_engine_def create_table_def
        opened_def has_table_def ascii_lower_def fresh_db_def commit_arg_def Let_def)
  have "files (state_with fresh_db) ''bot.db''
      \<noteq> Some \<lparr>catalog = [''defs'', ''notes''], defs_rows = []\<rparr>"
    by (simp add: state_with_def fresh_db_def)
  with a show ?thesis
    by metis
qed

end
